theory Spec2Isabelle
  imports Complex_Main "HOL-Library.Multiset"
begin

section \<open>Data model (models.py)\<close>

text \<open>
  Primary keys are UUIDs and timestamps are \<open>datetime\<close> values; both are only compared
  and stored, so they are kept as natural numbers. A JSON column holds a JSON object;
  its keys are kept in insertion order.
\<close>

type_synonym uuid = nat
type_synonym datetime = nat

datatype json =
    JNull
  | JBool bool
  | JNum real
  | JStr string
  | JList "json list"
  | JObj "(string \<times> json) list"

type_synonym json_dict = "(string \<times> json) list"

text \<open>
  The values of the Python dicts that the code hands to a JSON column: values that are JSON
  already, and \<open>datetime\<close> objects. The column is declared \<open>JSON\<close> and the engine is created
  with no \<open>json_serializer\<close>, so a dict is written with \<open>json.dumps\<close>, which raises
  \<open>TypeError\<close> on a \<open>datetime\<close>: \<open>json_dumps\<close> is the JSON object that gets stored, or \<open>None\<close>
  when \<open>json.dumps\<close> raises.
\<close>

datatype py_value = Json json | Datetime datetime

type_synonym py_dict = "(string \<times> py_value) list"

fun json_dumps :: "py_dict \<Rightarrow> json_dict option" where
  "json_dumps [] = Some []"
| "json_dumps ((k, Json j) # d) = map_option (\<lambda>stored. (k, j) # stored) (json_dumps d)"
| "json_dumps ((k, Datetime t) # d) = None"

text \<open>A dict that arrived as JSON (a request body), as the Python dict it is.\<close>

definition py_of_json :: "json_dict \<Rightarrow> py_dict" where
  "py_of_json d = map (\<lambda>(k, j). (k, Json j)) d"

datatype alert_status = ACTIVE | RESOLVED | ACKNOWLEDGED

datatype alert_type = RESOURCE | SECURITY | MISCONFIGURATION

datatype incident_status = OPEN | IN_PROGRESS | INCIDENT_RESOLVED | CLOSED

record product =
  p_id :: uuid
  p_name :: string
  p_description :: "string option"
  p_created_at :: datetime
  p_updated_at :: datetime

record resource =
  r_id :: uuid
  r_product_id :: uuid
  r_name :: string
  r_cloud_id :: string
  r_cloud_provider :: string
  r_resource_type :: string
  r_metadata :: "json_dict option"
  r_monitoring_enabled :: bool
  r_created_at :: datetime
  r_updated_at :: datetime

record alert =
  a_id :: uuid
  a_resource_id :: "uuid option"
  a_type :: alert_type
  a_status :: alert_status
  a_title :: string
  a_description :: "string option"
  a_triggered_at :: datetime
  a_resolved_at :: "datetime option"
  a_severity :: string
  a_details :: "json_dict option"
  a_incident_id :: "uuid option"

record incident =
  i_id :: uuid
  i_resource_id :: "uuid option"
  i_status :: incident_status
  i_title :: string
  i_description :: "string option"
  i_opened_at :: datetime
  i_closed_at :: "datetime option"
  i_created_by :: "string option"

record audit_log =
  l_id :: uuid
  l_incident_id :: "uuid option"
  l_alert_id :: "uuid option"
  l_event_type :: string
  l_event_time :: datetime
  l_actor :: "string option"
  l_details :: "json_dict option"

section \<open>Metric evaluation (monitoring.py)\<close>

text \<open>
  \<open>evaluate_metrics\<close> walks \<open>metrics.items()\<close> in the dict's order. An observation is a
  number or \<open>None\<close>; \<open>thresholds.get(metric)\<close> is \<open>None\<close> for a metric with no threshold.
  Numbers are only compared with \<open>>\<close>, which Python decides exactly on finite ints and
  floats, so they are kept as reals.
\<close>

record breach =
  metric :: string
  "value" :: real
  threshold :: real

fun evaluate_metrics :: "(string \<times> real option) list \<Rightarrow> (string \<rightharpoonup> real) \<Rightarrow> breach list" where
  "evaluate_metrics [] thresholds = []"
| "evaluate_metrics ((m, v) # metrics) thresholds =
     (case thresholds m of
        None \<Rightarrow> evaluate_metrics metrics thresholds
      | Some t \<Rightarrow>
          (case v of
             None \<Rightarrow> evaluate_metrics metrics thresholds
           | Some x \<Rightarrow>
               if x > t
               then \<lparr>metric = m, value = x, threshold = t\<rparr> # evaluate_metrics metrics thresholds
               else evaluate_metrics metrics thresholds))"

text \<open>
  The metrics that breach, read through the dict: \<open>M[m]\<close> is observed, \<open>T[m]\<close> exists and
  \<open>M[m] > T[m]\<close>.
\<close>

definition breaches_at :: "(string \<times> real option) list \<Rightarrow> (string \<rightharpoonup> real) \<Rightarrow> string \<Rightarrow> bool" where
  "breaches_at metrics thresholds m =
     (case map_of metrics m of
        Some (Some x) \<Rightarrow> (case thresholds m of Some t \<Rightarrow> x > t | None \<Rightarrow> False)
      | _ \<Rightarrow> False)"

text \<open>One item of \<open>metrics.items()\<close> breaches: it is observed and above its threshold.\<close>

definition item_breaches :: "(string \<rightharpoonup> real) \<Rightarrow> string \<times> real option \<Rightarrow> bool" where
  "item_breaches thresholds item =
     (case snd item of
        Some x \<Rightarrow> (case thresholds (fst item) of Some t \<Rightarrow> x > t | None \<Rightarrow> False)
      | None \<Rightarrow> False)"

section \<open>The database session and the environment\<close>

text \<open>
  The tables of the database. Rows are kept in insertion order.
\<close>

record database =
  products :: "product list"
  resources :: "resource list"
  alerts :: "alert list"
  incidents :: "incident list"
  audit_logs :: "audit_log list"

text \<open>
  The errors the operations raise: the \<open>HTTPException\<close>s of the source with their status
  code and detail, and the \<open>SQLAlchemyError\<close>s of the session: a commit that the database
  rejects, and the \<open>StatementError\<close> of a row that cannot be written.
\<close>

datatype error =
    HTTPException nat string
  | SQLAlchemyError

text \<open>
  The text handed to the notification channels is an f-string; its literal parts are kept
  as they are and each interpolated value is kept with its type, for Python to print.
\<close>

datatype piece =
    Text string
  | Upper string
  | Str_type alert_type
  | Str_uuid "uuid option"
  | Str_time datetime
  | Str_text "string option"
  | Str_dict "json_dict option"

type_synonym message = "piece list"

text \<open>
  Everything an operation reads or changes:
  \<^item> \<open>store\<close> are the committed tables, \<open>session\<close> the tables as the open SQLAlchemy session
    sees them (the store with the session's uncommitted changes);
  \<^item> \<open>commit_faults\<close> is the database's verdict on the coming commits: \<open>True\<close> is a commit
    that it rejects (it is unreachable, or a constraint of the schema is violated), and
    once the script is used up every commit is accepted;
  \<^item> \<open>clock\<close> gives the successive readings of \<open>datetime.utcnow()\<close> and \<open>uuid_source\<close> the
    successive results of \<open>uuid.uuid4()\<close>;
  \<^item> \<open>scan_rank skip limit\<close> ranks the audit entries in the order in which the database
    happens to produce them for the listing with that offset and limit;
  \<^item> \<open>smtp_ok\<close> tells whether the SMTP exchange for a subject and body completes without an
    exception, \<open>slack_webhook_url\<close> is the configured \<open>SLACK_WEBHOOK_URL\<close>, and \<open>slack_post\<close>
    is the status code of the webhook's response, or \<open>None\<close> when \<open>requests.post\<close> raises.
\<close>

record world =
  store :: database
  session :: database
  commit_faults :: "bool list"
  clock :: "nat \<Rightarrow> datetime"
  clock_reads :: nat
  uuid_source :: "nat \<Rightarrow> uuid"
  uuid_draws :: nat
  scan_rank :: "nat \<Rightarrow> nat \<Rightarrow> audit_log \<Rightarrow> nat"
  smtp_ok :: "message \<Rightarrow> message \<Rightarrow> bool"
  slack_webhook_url :: string
  slack_post :: "message \<Rightarrow> nat option"

type_synonym 'a result = "(error + 'a) \<times> world"

definition utcnow :: "world \<Rightarrow> datetime \<times> world" where
  "utcnow w = (clock w (clock_reads w), w\<lparr>clock_reads := Suc (clock_reads w)\<rparr>)"

definition uuid4 :: "world \<Rightarrow> uuid \<times> world" where
  "uuid4 w = (uuid_source w (uuid_draws w), w\<lparr>uuid_draws := Suc (uuid_draws w)\<rparr>)"

text \<open>
  \<open>db.commit()\<close>: an accepted commit makes the session's tables the stored ones; a rejected
  one raises and the session is rolled back to the stored tables.
\<close>

definition db_commit :: "world \<Rightarrow> unit result" where
  "db_commit w =
     (case commit_faults w of
        [] \<Rightarrow> (Inr (), w\<lparr>store := session w\<rparr>)
      | rejected # faults \<Rightarrow>
          if rejected
          then (Inl SQLAlchemyError, w\<lparr>session := store w, commit_faults := faults\<rparr>)
          else (Inr (), w\<lparr>store := session w, commit_faults := faults\<rparr>))"

text \<open>\<open>accepted n faults\<close>: the database accepts the next \<open>n\<close> commits.\<close>

definition accepted :: "nat \<Rightarrow> bool list \<Rightarrow> bool" where
  "accepted n faults = (True \<notin> set (take n faults))"

text \<open>
  \<open>db.add(obj)\<close> for a new \<open>AuditLog\<close> or \<open>Alert\<close>: the row is pending in the session. Its
  \<open>id\<close> column has \<open>default=uuid.uuid4\<close>.
\<close>

definition db_add_audit_log :: "world \<Rightarrow> audit_log \<Rightarrow> world" where
  "db_add_audit_log w entry =
     w\<lparr>session := (session w)\<lparr>audit_logs := audit_logs (session w) @ [entry]\<rparr>\<rparr>"

definition db_add_alert :: "world \<Rightarrow> alert \<Rightarrow> world" where
  "db_add_alert w a =
     w\<lparr>session := (session w)\<lparr>alerts := alerts (session w) @ [a]\<rparr>\<rparr>"

text \<open>
  Assigning to the attributes of an \<open>Alert\<close> that belongs to the session changes its row
  (the row with its primary key) in the session.
\<close>

definition db_set_alert :: "world \<Rightarrow> alert \<Rightarrow> world" where
  "db_set_alert w a =
     w\<lparr>session := (session w)\<lparr>alerts :=
          map (\<lambda>row. if a_id row = a_id a then a else row) (alerts (session w))\<rparr>\<rparr>"

section \<open>Alert delivery and resolution (alerting.py)\<close>

definition send_email_alert :: "world \<Rightarrow> message \<Rightarrow> message \<Rightarrow> bool" where
  "send_email_alert w subject body = smtp_ok w subject body"

definition send_slack_alert :: "world \<Rightarrow> message \<Rightarrow> bool" where
  "send_slack_alert w msg =
     (if slack_webhook_url w = []
      then False
      else (case slack_post w msg of
              Some status_code \<Rightarrow> if status_code = 200 then True else False
            | None \<Rightarrow> False))"

text \<open>\<open>details or {}\<close>: \<open>None\<close> and the empty dict both give the empty dict.\<close>

definition or_empty :: "(string \<times> 'v) list option \<Rightarrow> (string \<times> 'v) list" where
  "or_empty details = (case details of None \<Rightarrow> [] | Some d \<Rightarrow> d)"

text \<open>
  \<open>log_alert_event\<close>. The source's default \<open>actor="system"\<close> is passed by the callers that
  leave the argument out. \<open>db.commit()\<close> first writes the new row, serialising its
  \<open>details\<close> for the JSON column: when \<open>json.dumps\<close> raises, the commit raises (SQLAlchemy
  wraps the \<open>TypeError\<close> in a \<open>StatementError\<close>), the transaction is rolled back and nothing
  is written. \<open>db.refresh\<close> reads back the row just committed.
\<close>

definition log_alert_event ::
  "world \<Rightarrow> alert \<Rightarrow> string \<Rightarrow> string option \<Rightarrow> py_dict option \<Rightarrow> incident option
     \<Rightarrow> audit_log result" where
  "log_alert_event w a event_type actor details inc =
     (let (now, w1) = utcnow w;
          (new_id, w2) = uuid4 w1
      in case json_dumps (or_empty details) of
           None \<Rightarrow> (Inl SQLAlchemyError, w2\<lparr>session := store w2\<rparr>)
         | Some stored \<Rightarrow>
             let entry = \<lparr>l_id = new_id,
                          l_incident_id = (case inc of Some i \<Rightarrow> Some (i_id i)
                                           | None \<Rightarrow> a_incident_id a),
                          l_alert_id = Some (a_id a),
                          l_event_type = event_type,
                          l_event_time = now,
                          l_actor = actor,
                          l_details = Some stored\<rparr>;
                 w3 = db_add_audit_log w2 entry
             in case db_commit w3 of
                  (Inl e, w4) \<Rightarrow> (Inl e, w4)
                | (Inr _, w4) \<Rightarrow> (Inr entry, w4))"

definition NL :: piece where
  "NL = Text [CHR 0x0A]"

definition alert_subject :: "alert \<Rightarrow> message" where
  "alert_subject a = [Text ''['', Upper (a_severity a), Text ''] Alert: '', Text (a_title a)]"

definition alert_body :: "alert \<Rightarrow> message" where
  "alert_body a =
     [NL, Text ''    Alert Type: '', Str_type (a_type a),
      NL, Text ''    Resource ID: '', Str_uuid (a_resource_id a),
      NL, Text ''    Triggered At: '', Str_time (a_triggered_at a),
      NL, Text ''    Severity: '', Text (a_severity a),
      NL, Text ''    Description: '', Str_text (a_description a),
      NL, Text ''    Details: '', Str_dict (a_details a),
      NL, Text ''    '']"

definition slack_message :: "alert \<Rightarrow> message" where
  "slack_message a = [Text ''*''] @ alert_subject a @ [Text ''*'', NL] @ alert_body a"

definition deliver_alert :: "world \<Rightarrow> alert \<Rightarrow> incident option \<Rightarrow> bool result" where
  "deliver_alert w a inc =
     (let subject = alert_subject a;
          body = alert_body a;
          email_sent = send_email_alert w subject body;
          slack_sent = send_slack_alert w (slack_message a)
      in case log_alert_event w a ''alert_generated'' (Some ''system'')
                (Some [(''email_sent'', Json (JBool email_sent)),
                       (''slack_sent'', Json (JBool slack_sent))]) inc of
           (Inl e, w1) \<Rightarrow> (Inl e, w1)
         | (Inr _, w1) \<Rightarrow> (Inr (email_sent \<or> slack_sent), w1))"

definition resolve_alert :: "world \<Rightarrow> alert \<Rightarrow> string option \<Rightarrow> alert result" where
  \<comment> \<open>After the first commit \<open>db.refresh(alert)\<close> reads back the row just committed; its
      \<open>resolved_at\<close>, a \<open>datetime\<close>, goes into the details of the audit entry.\<close>
  "resolve_alert w a actor =
     (if a_status a = RESOLVED
      then (Inr a, w)
      else
        let (now, w1) = utcnow w;
            a1 = a\<lparr>a_status := RESOLVED, a_resolved_at := Some now\<rparr>;
            w2 = db_set_alert w1 a1
        in case db_commit w2 of
             (Inl e, w3) \<Rightarrow> (Inl e, w3)
           | (Inr _, w3) \<Rightarrow>
               (case log_alert_event w3 a1 ''alert_resolved'' actor
                       (Some [(''resolved_at'',
                               (case a_resolved_at a1 of
                                  Some t \<Rightarrow> Datetime t
                                | None \<Rightarrow> Json JNull))])
                       None of
                  (Inl e, w4) \<Rightarrow> (Inl e, w4)
                | (Inr _, w4) \<Rightarrow> (Inr a1, w4)))"

section \<open>Lookups and product deletion (crud.py)\<close>

text \<open>
  A query reads the stored rows: the session is created with \<open>autoflush=False\<close> and every
  operation commits its change before the next query. \<open>.first()\<close> is the first row that
  matches, or \<open>None\<close>.
\<close>

definition get_product :: "world \<Rightarrow> uuid \<Rightarrow> error + product" where
  "get_product w product_id =
     (case find (\<lambda>p. p_id p = product_id) (products (store w)) of
        None \<Rightarrow> Inl (HTTPException 404 ''Product not found.'')
      | Some p \<Rightarrow> Inr p)"

definition get_resource :: "world \<Rightarrow> uuid \<Rightarrow> error + resource" where
  "get_resource w resource_id =
     (case find (\<lambda>r. r_id r = resource_id) (resources (store w)) of
        None \<Rightarrow> Inl (HTTPException 404 ''Resource not found.'')
      | Some r \<Rightarrow> Inr r)"

text \<open>
  \<open>db.delete(product)\<close> follows the cascades that models.py declares:
  \<^item> \<open>Product.resources\<close>, \<open>Resource.alerts\<close>, \<open>Resource.incidents\<close>, \<open>Incident.alerts\<close> and
    \<open>Incident.audit_logs\<close> all have \<open>cascade="all, delete-orphan"\<close>: the children of a
    deleted row are deleted with it;
  \<^item> \<open>AuditLog.alert_id\<close> is a foreign key with \<open>ondelete="SET NULL"\<close> and \<open>Alert\<close> has no
    relationship to its audit entries: the entries of a deleted alert stay, with
    \<open>alert_id\<close> set to \<open>NULL\<close>.
\<close>

definition refers_to :: "uuid option \<Rightarrow> uuid set \<Rightarrow> bool" where
  "refers_to fk ids = (case fk of None \<Rightarrow> False | Some k \<Rightarrow> k \<in> ids)"

definition db_delete_product :: "world \<Rightarrow> product \<Rightarrow> world" where
  "db_delete_product w p =
     (let d = session w;
          resource_gone = (\<lambda>r. r_product_id r = p_id p);
          rids = set (map r_id (filter resource_gone (resources d)));
          incident_gone = (\<lambda>i. refers_to (i_resource_id i) rids);
          iids = set (map i_id (filter incident_gone (incidents d)));
          alert_gone = (\<lambda>a. refers_to (a_resource_id a) rids \<or> refers_to (a_incident_id a) iids);
          aids = set (map a_id (filter alert_gone (alerts d)));
          entry_gone = (\<lambda>l. refers_to (l_incident_id l) iids);
          set_null = (\<lambda>l. if refers_to (l_alert_id l) aids then l\<lparr>l_alert_id := None\<rparr> else l)
      in w\<lparr>session :=
            \<lparr>products = filter (\<lambda>q. p_id q \<noteq> p_id p) (products d),
             resources = filter (\<lambda>r. \<not> resource_gone r) (resources d),
             alerts = filter (\<lambda>a. \<not> alert_gone a) (alerts d),
             incidents = filter (\<lambda>i. \<not> incident_gone i) (incidents d),
             audit_logs = map set_null (filter (\<lambda>l. \<not> entry_gone l) (audit_logs d))\<rparr>\<rparr>)"

definition delete_product :: "world \<Rightarrow> uuid \<Rightarrow> unit result" where
  "delete_product w product_id =
     (case get_product w product_id of
        Inl e \<Rightarrow> (Inl e, w)
      | Inr p \<Rightarrow> db_commit (db_delete_product w p))"

section \<open>Security events (security_events.py)\<close>

definition SECURITY_EVENT_TYPES :: "string list" where
  "SECURITY_EVENT_TYPES =
     [''unauthorized_access'',
      ''configuration_change'',
      ''policy_violation'',
      ''privilege_escalation'',
      ''resource_exposure'']"

text \<open>
  \<open>str.replace\<close> and \<open>str.title\<close> on ASCII text, which is all that reaches them: the event
  type is one of \<open>SECURITY_EVENT_TYPES\<close> by then. \<open>title\<close> capitalises the first letter of
  every run of letters and lowers the others.
\<close>

definition is_lower :: "char \<Rightarrow> bool" where
  "is_lower c = (97 \<le> (of_char c :: nat) \<and> (of_char c :: nat) \<le> 122)"

definition is_upper :: "char \<Rightarrow> bool" where
  "is_upper c = (65 \<le> (of_char c :: nat) \<and> (of_char c :: nat) \<le> 90)"

definition to_upper :: "char \<Rightarrow> char" where
  "to_upper c = (if is_lower c then char_of ((of_char c :: nat) - 32) else c)"

definition to_lower :: "char \<Rightarrow> char" where
  "to_lower c = (if is_upper c then char_of ((of_char c :: nat) + 32) else c)"

definition replace_char :: "char \<Rightarrow> char \<Rightarrow> string \<Rightarrow> string" where
  "replace_char old new s = map (\<lambda>c. if c = old then new else c) s"

fun title_from :: "bool \<Rightarrow> string \<Rightarrow> string" where
  "title_from previous_is_cased [] = []"
| "title_from previous_is_cased (c # cs) =
     (if is_lower c
      then (if previous_is_cased then c else to_upper c) # title_from True cs
      else if is_upper c
      then (if previous_is_cased then to_lower c else c) # title_from True cs
      else c # title_from False cs)"

definition title :: "string \<Rightarrow> string" where
  "title s = title_from False s"

text \<open>A value between single quotes, as the f-string of the description writes it.\<close>

definition quoted :: "string \<Rightarrow> string" where
  "quoted s = [CHR 0x27] @ s @ [CHR 0x27]"

text \<open>\<open>actor or "system"\<close>: \<open>None\<close> and the empty string both give \<open>"system"\<close>.\<close>

definition or_system :: "string option \<Rightarrow> string" where
  "or_system actor = (case actor of None \<Rightarrow> ''system'' | Some s \<Rightarrow> if s = [] then ''system'' else s)"

definition event_severity :: "string \<Rightarrow> string" where
  "event_severity event_type =
     (if event_type \<in> set [''unauthorized_access'', ''privilege_escalation'', ''resource_exposure'']
      then ''critical'' else ''warning'')"

definition detect_security_event ::
  "world \<Rightarrow> uuid \<Rightarrow> string \<Rightarrow> string option \<Rightarrow> json_dict option \<Rightarrow> alert result" where
  "detect_security_event w resource_id event_type actor details =
     (if event_type \<notin> set SECURITY_EVENT_TYPES
      then (Inl (HTTPException 400 (''Unsupported security event type: '' @ event_type)), w)
      else
        case get_resource w resource_id of
          Inl e \<Rightarrow> (Inl e, w)
        | Inr res \<Rightarrow>
            let (now, w1) = utcnow w;
                (new_id, w2) = uuid4 w1;
                a = \<lparr>a_id = new_id,
                     a_resource_id = Some (r_id res),
                     a_type = SECURITY,
                     a_status = ACTIVE,
                     a_title = ''Security Event: '' @ title (replace_char CHR ''_'' CHR '' '' event_type),
                     a_description = Some (''Detected security event '' @ quoted event_type
                                           @ '' on resource '' @ quoted (r_name res)),
                     a_triggered_at = now,
                     a_resolved_at = None,
                     a_severity = event_severity event_type,
                     a_details = Some (or_empty details),
                     a_incident_id = None\<rparr>;
                w3 = db_add_alert w2 a
            in case db_commit w3 of
                 (Inl e, w4) \<Rightarrow> (Inl e, w4)
               | (Inr _, w4) \<Rightarrow>
                   (case deliver_alert w4 a None of
                      (Inl e, w5) \<Rightarrow> (Inl e, w5)
                    | (Inr _, w5) \<Rightarrow>
                        (case log_alert_event w5 a ''security_event_detected''
                                (Some (or_system actor)) (Some (py_of_json (or_empty details)))
                                None of
                           (Inl e, w6) \<Rightarrow> (Inl e, w6)
                         | (Inr _, w6) \<Rightarrow> (Inr a, w6))))"

section \<open>Audit log queries (audit_log.py)\<close>

text \<open>
  \<open>get_audit_logs\<close>: the optional filters, \<open>ORDER BY event_time DESC\<close>, then \<open>OFFSET skip\<close>
  and \<open>LIMIT limit\<close> (the source's defaults are \<open>skip=0\<close> and \<open>limit=100\<close>). A UUID is
  always true in Python, so \<open>if incident_id:\<close> asks whether the filter was given. SQL
  leaves the order of rows with equal \<open>event_time\<close> open: they come in the order in which
  the database produces them for this query (\<open>scan_rank\<close>), which the sort by descending
  \<open>event_time\<close> keeps.
\<close>

definition get_audit_logs ::
  "world \<Rightarrow> uuid option \<Rightarrow> uuid option \<Rightarrow> nat \<Rightarrow> nat \<Rightarrow> audit_log list" where
  "get_audit_logs w incident_id alert_id skip limit =
     (let query = audit_logs (store w);
          query1 = (case incident_id of
                      Some i \<Rightarrow> filter (\<lambda>l. l_incident_id l = Some i) query
                    | None \<Rightarrow> query);
          query2 = (case alert_id of
                      Some a \<Rightarrow> filter (\<lambda>l. l_alert_id l = Some a) query1
                    | None \<Rightarrow> query1);
          scanned = sort_key (scan_rank w skip limit) query2
      in take limit (drop skip (sort_key (\<lambda>l. - int (l_event_time l)) scanned)))"

section \<open>Predicates of the properties\<close>

text \<open>\<open>resolved_at\<close> is set if and only if the status is \<open>resolved\<close>.\<close>

definition alert_inv :: "alert \<Rightarrow> bool" where
  "alert_inv a = ((a_resolved_at a \<noteq> None) = (a_status a = RESOLVED))"

definition alerts_inv :: "database \<Rightarrow> bool" where
  "alerts_inv d = list_all alert_inv (alerts d)"

definition world_inv :: "world \<Rightarrow> bool" where
  "world_inv w = (alerts_inv (store w) \<and> alerts_inv (session w))"

text \<open>
  The foreign keys of models.py: every reference from a row is \<open>NULL\<close> or the primary key of
  a row of the table it points to.
\<close>

definition fk_ok :: "uuid option \<Rightarrow> uuid list \<Rightarrow> bool" where
  "fk_ok fk ids = (case fk of None \<Rightarrow> True | Some k \<Rightarrow> k \<in> set ids)"

definition fk_consistent :: "database \<Rightarrow> bool" where
  "fk_consistent d =
     (list_all (\<lambda>r. r_product_id r \<in> set (map p_id (products d))) (resources d)
      \<and> list_all (\<lambda>a. fk_ok (a_resource_id a) (map r_id (resources d))
                        \<and> fk_ok (a_incident_id a) (map i_id (incidents d))) (alerts d)
      \<and> list_all (\<lambda>i. fk_ok (i_resource_id i) (map r_id (resources d))) (incidents d)
      \<and> list_all (\<lambda>l. fk_ok (l_incident_id l) (map i_id (incidents d))
                        \<and> fk_ok (l_alert_id l) (map a_id (alerts d))) (audit_logs d))"

text \<open>Newest first: the event times never increase along the list.\<close>

definition newest_first :: "audit_log list \<Rightarrow> bool" where
  "newest_first ls = sorted_wrt (\<lambda>x y. l_event_time x \<ge> l_event_time y) ls"

text \<open>The rows that the filters given to \<open>get_audit_logs\<close> keep.\<close>

definition selected :: "uuid option \<Rightarrow> uuid option \<Rightarrow> audit_log \<Rightarrow> bool" where
  "selected incident_id alert_id l =
     ((case incident_id of Some i \<Rightarrow> l_incident_id l = Some i | None \<Rightarrow> True)
      \<and> (case alert_id of Some a \<Rightarrow> l_alert_id l = Some a | None \<Rightarrow> True))"

section \<open>Example states\<close>

definition empty_db :: database where
  "empty_db = \<lparr>products = [], resources = [], alerts = [], incidents = [], audit_logs = []\<rparr>"

text \<open>
  A world with an empty database in which both channels fail: SMTP raises and no Slack
  webhook is configured.
\<close>

definition world0 :: world where
  "world0 =
     \<lparr>store = empty_db, session = empty_db, commit_faults = [],
      clock = (\<lambda>n. 1000 + n), clock_reads = 0,
      uuid_source = (\<lambda>n. 100 + n), uuid_draws = 0,
      scan_rank = (\<lambda>skip limit. l_id),
      smtp_ok = (\<lambda>subject body. False),
      slack_webhook_url = [],
      slack_post = (\<lambda>msg. Some 200)\<rparr>"

definition alert0 :: alert where
  "alert0 =
     \<lparr>a_id = 4, a_resource_id = Some 2, a_type = RESOURCE, a_status = ACTIVE,
      a_title = ''CPU high'', a_description = None, a_triggered_at = 900,
      a_resolved_at = None, a_severity = ''warning'', a_details = None,
      a_incident_id = None\<rparr>"

definition world_monitored :: world where
  "world_monitored =
     (let d = empty_db\<lparr>
            products := [\<lparr>p_id = 1, p_name = ''shop'', p_description = None,
                          p_created_at = 10, p_updated_at = 10\<rparr>],
            resources := [\<lparr>r_id = 2, r_product_id = 1, r_name = ''web-1'', r_cloud_id = ''i-0abc'',
                           r_cloud_provider = ''aws'', r_resource_type = ''EC2'',
                           r_metadata = None, r_monitoring_enabled = True,
                           r_created_at = 20, r_updated_at = 20\<rparr>]\<rparr>
      in world0\<lparr>store := d, session := d\<rparr>)"

text \<open>The monitored resource with one active alert.\<close>

definition world_resolving :: world where
  "world_resolving =
     world0\<lparr>store := (store world_monitored)\<lparr>alerts := [alert0]\<rparr>,
            session := (store world_monitored)\<lparr>alerts := [alert0]\<rparr>\<rparr>"

definition incident_at :: "uuid \<Rightarrow> incident" where
  "incident_at n =
     \<lparr>i_id = n, i_resource_id = None, i_status = OPEN, i_title = ''Outage'',
      i_description = None, i_opened_at = 0, i_closed_at = None, i_created_by = Some ''system''\<rparr>"

text \<open>
  A store of 101 audit entries of incident 7, written at the times 0 to 100.
\<close>

definition entry_at :: "nat \<Rightarrow> audit_log" where
  "entry_at n =
     \<lparr>l_id = n, l_incident_id = Some 7, l_alert_id = None, l_event_type = ''alert_generated'',
      l_event_time = n, l_actor = Some ''system'', l_details = Some []\<rparr>"

definition world_many :: world where
  "world_many =
     world0\<lparr>store := empty_db\<lparr>incidents := [incident_at 7],
                              audit_logs := map entry_at [0..<101]\<rparr>,
            session := empty_db\<lparr>incidents := [incident_at 7],
                                audit_logs := map entry_at [0..<101]\<rparr>\<rparr>"

text \<open>Three audit entries, of incidents 7, 8 and 7, not in the order of their times.\<close>

definition world_few :: world where
  "world_few =
     world0\<lparr>store := empty_db\<lparr>incidents := [incident_at 7, incident_at 8], audit_logs :=
               [entry_at 5, (entry_at 9)\<lparr>l_incident_id := Some 8\<rparr>, entry_at 12]\<rparr>,
            session := empty_db\<lparr>incidents := [incident_at 7, incident_at 8], audit_logs :=
               [entry_at 5, (entry_at 9)\<lparr>l_incident_id := Some 8\<rparr>, entry_at 12]\<rparr>\<rparr>"

text \<open>
  The monitored resource of \<open>world_monitored\<close> with an open incident, an alert, and two
  audit entries: one of the incident and one of the alert.
\<close>

definition world_incident :: world where
  "world_incident =
     (let d = (store world_monitored)\<lparr>
            alerts := [alert0],
            incidents := [\<lparr>i_id = 3, i_resource_id = Some 2, i_status = OPEN,
                           i_title = ''CPU high on web-1'', i_description = None,
                           i_opened_at = 950, i_closed_at = None,
                           i_created_by = Some ''system''\<rparr>],
            audit_logs := [(entry_at 5)\<lparr>l_incident_id := Some 3\<rparr>,
                           (entry_at 6)\<lparr>l_incident_id := None, l_alert_id := Some 4\<rparr>]\<rparr>
      in world0\<lparr>store := d, session := d\<rparr>)"

text \<open>The state after a security event on the monitored resource.\<close>

definition world_detected :: world where
  "world_detected = snd (detect_security_event world_monitored 2 ''privilege_escalation'' None None)"

section \<open>The example states: properties\<close>

text \<open>The example states with rows that refer to other rows satisfy the foreign keys.\<close>

lemma example_states_consistent:
  "fk_consistent (store world_monitored) \<and> fk_consistent (store world_resolving)
   \<and> fk_consistent (store world_incident) \<and> fk_consistent (store world_detected)
   \<and> fk_consistent (store world_many) \<and> fk_consistent (store world_few)"
  by code_simp

section \<open>Threshold evaluation: properties\<close>

lemma evaluate_metrics_set:
  "b \<in> set (evaluate_metrics metrics thresholds) \<longleftrightarrow>
     (metric b, Some (value b)) \<in> set metrics \<and> thresholds (metric b) = Some (threshold b)
       \<and> value b > threshold b"
  by (induction metrics thresholds rule: evaluate_metrics.induct)
     (auto split: option.splits)

lemma evaluate_metrics_keys:
  "map metric (evaluate_metrics metrics thresholds)
     = map fst (filter (item_breaches thresholds) metrics)"
  by (induction metrics thresholds rule: evaluate_metrics.induct)
     (auto simp: item_breaches_def split: option.splits)

lemma breaches_at_item:
  assumes "distinct (map fst metrics)" and "item \<in> set metrics"
  shows "breaches_at metrics thresholds (fst item) = item_breaches thresholds item"
proof -
  from assms have "map_of metrics (fst item) = Some (snd item)"
    by (cases item) simp
  then show ?thesis
    by (simp add: breaches_at_def item_breaches_def split: option.splits)
qed

lemma filter_keys:
  assumes "distinct (map fst metrics)"
  shows "map fst (filter (item_breaches thresholds) metrics)
           = filter (breaches_at metrics thresholds) (map fst metrics)"
proof -
  have "filter (breaches_at metrics thresholds) (map fst metrics)
        = map fst (filter (\<lambda>item. breaches_at metrics thresholds (fst item)) metrics)"
    by (simp add: filter_map comp_def)
  also have "filter (\<lambda>item. breaches_at metrics thresholds (fst item)) metrics
        = filter (item_breaches thresholds) metrics"
    using assms by (intro filter_cong refl) (simp add: breaches_at_item)
  finally show ?thesis by simp
qed

text \<open>
  C5. For a metrics dict \<open>M\<close> (its items in iteration order, keys distinct as in any dict)
  and thresholds \<open>T\<close>, a breach record \<open>{metric, value, threshold}\<close> is in
  \<open>evaluate_metrics M T\<close> if and only if the metric is a key of both, \<open>M[m]\<close> is observed
  (not \<open>None\<close>) and equal to the record's value, \<open>T[m]\<close> is the record's threshold and
  \<open>M[m] > T[m]\<close>. Metrics with no observation or no threshold are skipped, and the
  breaches come in the iteration order of \<open>M\<close>: their metrics are the keys of \<open>M\<close> that
  breach, in the order of \<open>M\<close>. The function is a pure function of \<open>M\<close> and \<open>T\<close>.
\<close>

theorem evaluate_metrics_breaches:
  assumes "distinct (map fst metrics)"
  shows "(b \<in> set (evaluate_metrics metrics thresholds) \<longleftrightarrow>
            map_of metrics (metric b) = Some (Some (value b))
            \<and> thresholds (metric b) = Some (threshold b)
            \<and> value b > threshold b)
       \<and> map metric (evaluate_metrics metrics thresholds)
           = filter (breaches_at metrics thresholds) (map fst metrics)"
  using assms by (simp add: evaluate_metrics_set evaluate_metrics_keys filter_keys)

theorem evaluate_metrics_breaches_witness:
  "distinct (map fst [(''CPUUtilization'', Some (85::real)), (''NetworkIn'', None)])
   \<and> \<lparr>metric = ''CPUUtilization'', value = 85, threshold = 80\<rparr>
       \<in> set (evaluate_metrics [(''CPUUtilization'', Some 85), (''NetworkIn'', None)]
               [''CPUUtilization'' \<mapsto> 80, ''NetworkIn'' \<mapsto> 1000000000])
   \<and> map metric (evaluate_metrics [(''CPUUtilization'', Some 85), (''NetworkIn'', None)]
               [''CPUUtilization'' \<mapsto> 80, ''NetworkIn'' \<mapsto> 1000000000])
       = [''CPUUtilization'']"
proof -
  have h: "distinct (map fst [(''CPUUtilization'', Some (85::real)), (''NetworkIn'', None)])"
    by simp
  show ?thesis
    using h evaluate_metrics_breaches [OF h,
        of "\<lparr>metric = ''CPUUtilization'', value = 85, threshold = 80\<rparr>"
           "[''CPUUtilization'' \<mapsto> 80, ''NetworkIn'' \<mapsto> 1000000000]"]
    by (simp add: breaches_at_def)
qed

section \<open>Commits and audit entries: properties\<close>

lemma db_commit_accepted:
  "accepted (Suc n) (commit_faults w) \<Longrightarrow>
     db_commit w = (Inr (), w\<lparr>store := session w, commit_faults := tl (commit_faults w)\<rparr>)"
  by (cases "commit_faults w") (auto simp: db_commit_def accepted_def)

lemma accepted_tl: "accepted (Suc n) faults \<Longrightarrow> accepted n (tl faults)"
  by (cases faults) (auto simp: accepted_def)

lemma json_dumps_py_of_json: "json_dumps (py_of_json d) = Some d"
  by (induction d) (auto simp: py_of_json_def)

lemma log_alert_event_accepted:
  assumes "accepted (Suc n) (commit_faults w)"
    and "json_dumps (or_empty details) = Some stored"
  shows "log_alert_event w a event_type actor details inc =
     (let entry = \<lparr>l_id = uuid_source w (uuid_draws w),
                   l_incident_id = (case inc of Some i \<Rightarrow> Some (i_id i) | None \<Rightarrow> a_incident_id a),
                   l_alert_id = Some (a_id a),
                   l_event_type = event_type,
                   l_event_time = clock w (clock_reads w),
                   l_actor = actor,
                   l_details = Some stored\<rparr>;
          d = (session w)\<lparr>audit_logs := audit_logs (session w) @ [entry]\<rparr>
      in (Inr entry, w\<lparr>store := d, session := d, commit_faults := tl (commit_faults w),
                        clock_reads := Suc (clock_reads w), uuid_draws := Suc (uuid_draws w)\<rparr>))"
proof -
  let ?w3 = "db_add_audit_log (snd (uuid4 (snd (utcnow w))))
               \<lparr>l_id = uuid_source w (uuid_draws w),
                l_incident_id = (case inc of Some i \<Rightarrow> Some (i_id i) | None \<Rightarrow> a_incident_id a),
                l_alert_id = Some (a_id a),
                l_event_type = event_type,
                l_event_time = clock w (clock_reads w),
                l_actor = actor,
                l_details = Some stored\<rparr>"
  have "commit_faults ?w3 = commit_faults w"
    by (simp add: db_add_audit_log_def uuid4_def utcnow_def)
  with assms(1) have "accepted (Suc n) (commit_faults ?w3)" by simp
  from db_commit_accepted [OF this] assms(2) show ?thesis
    by (simp add: log_alert_event_def Let_def db_add_audit_log_def uuid4_def utcnow_def)
qed

text \<open>A dict that \<open>json.dumps\<close> refuses is never written, whatever the database would do.\<close>

lemma log_alert_event_unserialisable:
  assumes "json_dumps (or_empty details) = None"
  shows "log_alert_event w a event_type actor details inc =
     (Inl SQLAlchemyError,
      w\<lparr>session := store w, clock_reads := Suc (clock_reads w),
        uuid_draws := Suc (uuid_draws w)\<rparr>)"
  using assms by (simp add: log_alert_event_def Let_def uuid4_def utcnow_def)

section \<open>Delivery: properties\<close>

lemma deliver_alert_accepted:
  assumes "accepted (Suc n) (commit_faults w)"
  shows "deliver_alert w a inc =
     (let email_sent = send_email_alert w (alert_subject a) (alert_body a);
          slack_sent = send_slack_alert w (slack_message a);
          entry = \<lparr>l_id = uuid_source w (uuid_draws w),
                   l_incident_id = (case inc of Some i \<Rightarrow> Some (i_id i) | None \<Rightarrow> a_incident_id a),
                   l_alert_id = Some (a_id a),
                   l_event_type = ''alert_generated'',
                   l_event_time = clock w (clock_reads w),
                   l_actor = Some ''system'',
                   l_details = Some [(''email_sent'', JBool email_sent),
                                     (''slack_sent'', JBool slack_sent)]\<rparr>;
          d = (session w)\<lparr>audit_logs := audit_logs (session w) @ [entry]\<rparr>
      in (Inr (email_sent \<or> slack_sent),
          w\<lparr>store := d, session := d, commit_faults := tl (commit_faults w),
            clock_reads := Suc (clock_reads w), uuid_draws := Suc (uuid_draws w)\<rparr>))"
proof -
  have "json_dumps (or_empty (Some [(''email_sent'',
            Json (JBool (send_email_alert w (alert_subject a) (alert_body a)))),
          (''slack_sent'', Json (JBool (send_slack_alert w (slack_message a))))]))
        = Some [(''email_sent'', JBool (send_email_alert w (alert_subject a) (alert_body a))),
                (''slack_sent'', JBool (send_slack_alert w (slack_message a)))]"
    by (simp add: or_empty_def)
  from log_alert_event_accepted [OF assms this] show ?thesis
    by (simp add: deliver_alert_def Let_def)
qed

text \<open>
  C1. Whatever the alert and whatever the two channels do, when the database accepts the
  commit \<open>deliver_alert\<close> appends exactly one audit entry, of event type
  \<open>alert_generated\<close>, whose details are \<open>email_sent\<close> and \<open>slack_sent\<close> with the results
  of the two sends, and it returns the disjunction of the two results. The entry is in the
  stored audit log of the state that comes back with the result, also when both channels
  failed and the result is \<open>False\<close>.
\<close>

theorem deliver_alert_audit_entry:
  assumes "accepted 1 (commit_faults w)"
  shows "let email_sent = send_email_alert w (alert_subject a) (alert_body a);
             slack_sent = send_slack_alert w (slack_message a);
             (delivered, w') = deliver_alert w a inc
         in delivered = Inr (email_sent \<or> slack_sent)
          \<and> audit_logs (store w') = audit_logs (session w) @
               [\<lparr>l_id = uuid_source w (uuid_draws w),
                 l_incident_id = (case inc of Some i \<Rightarrow> Some (i_id i) | None \<Rightarrow> a_incident_id a),
                 l_alert_id = Some (a_id a),
                 l_event_type = ''alert_generated'',
                 l_event_time = clock w (clock_reads w),
                 l_actor = Some ''system'',
                 l_details = Some [(''email_sent'', JBool email_sent), (''slack_sent'', JBool slack_sent)]\<rparr>]
          \<and> audit_logs (session w') = audit_logs (store w')"
proof -
  from assms have "accepted (Suc 0) (commit_faults w)" by simp
  from deliver_alert_accepted [OF this] show ?thesis
    by (simp add: Let_def)
qed

theorem deliver_alert_audit_entry_witness:
  "accepted 1 (commit_faults world_incident)
   \<and> alert0 \<in> set (alerts (store world_incident))
   \<and> fk_consistent (store world_incident)
   \<and> fst (deliver_alert world_incident alert0 None) = Inr False
   \<and> audit_logs (store (snd (deliver_alert world_incident alert0 None))) =
        audit_logs (store world_incident) @
        [\<lparr>l_id = 100, l_incident_id = None, l_alert_id = Some 4,
          l_event_type = ''alert_generated'', l_event_time = 1000, l_actor = Some ''system'',
          l_details = Some [(''email_sent'', JBool False), (''slack_sent'', JBool False)]\<rparr>]
   \<and> fk_consistent (store (snd (deliver_alert world_incident alert0 None)))"
proof -
  have h: "accepted 1 (commit_faults world_incident)"
    by (simp add: world_incident_def world0_def accepted_def Let_def)
  have stored: "alert0 \<in> set (alerts (store world_incident))"
    by (simp add: world_incident_def Let_def)
  have before: "fk_consistent (store world_incident)"
    by code_simp
  have after: "fk_consistent (store (snd (deliver_alert world_incident alert0 None)))"
    by code_simp
  have same: "session world_incident = store world_incident"
    by (simp add: world_incident_def Let_def)
  have channels: "\<not> send_email_alert world_incident (alert_subject alert0) (alert_body alert0)"
    "\<not> send_slack_alert world_incident (slack_message alert0)"
    by (simp_all add: send_email_alert_def send_slack_alert_def world_incident_def world0_def
        Let_def)
  have readings: "uuid_source world_incident (uuid_draws world_incident) = 100"
    "clock world_incident (clock_reads world_incident) = 1000"
    by (simp_all add: world_incident_def world0_def Let_def)
  have fields: "a_id alert0 = 4" "a_incident_id alert0 = None"
    by (simp_all add: alert0_def)
  from deliver_alert_audit_entry [OF h, of alert0 None]
  have "fst (deliver_alert world_incident alert0 None) = Inr False"
    and "audit_logs (store (snd (deliver_alert world_incident alert0 None))) =
        audit_logs (store world_incident) @
        [\<lparr>l_id = 100, l_incident_id = None, l_alert_id = Some 4,
          l_event_type = ''alert_generated'', l_event_time = 1000, l_actor = Some ''system'',
          l_details = Some [(''email_sent'', JBool False), (''slack_sent'', JBool False)]\<rparr>]"
    by (simp_all add: Let_def split_beta same channels readings fields)
  with h stored before after show ?thesis
    by blast
qed

text \<open>
  C9. \<open>deliver_alert\<close> changes no alert: called in a session with no uncommitted change,
  it leaves the alerts table (every field of every alert, the delivered one included) as
  it was, in the store and in the session, and so the products, resources and incidents,
  whatever the channels and the database do. Its only effect on the tables is the one
  audit entry it appends when the database accepts the commit; when the commit is
  rejected the audit log is unchanged too.
\<close>

theorem deliver_alert_frame:
  assumes "session w = store w"
  shows "let (delivered, w') = deliver_alert w a inc
         in alerts (store w') = alerts (store w) \<and> alerts (session w') = alerts (store w)
          \<and> products (store w') = products (store w) \<and> products (session w') = products (store w)
          \<and> resources (store w') = resources (store w) \<and> resources (session w') = resources (store w)
          \<and> incidents (store w') = incidents (store w) \<and> incidents (session w') = incidents (store w)
          \<and> session w' = store w'
          \<and> (if accepted 1 (commit_faults w)
              then \<exists>entry. audit_logs (store w') = audit_logs (store w) @ [entry]
              else audit_logs (store w') = audit_logs (store w))"
proof (cases "commit_faults w")
  case Nil
  with assms show ?thesis
    by (simp add: deliver_alert_def log_alert_event_def db_commit_def Let_def utcnow_def
        uuid4_def db_add_audit_log_def accepted_def or_empty_def)
next
  case (Cons rejected faults)
  with assms show ?thesis
    by (cases rejected)
       (simp_all add: deliver_alert_def log_alert_event_def db_commit_def Let_def utcnow_def
          uuid4_def db_add_audit_log_def accepted_def or_empty_def)
qed

theorem deliver_alert_frame_witness:
  "session world_resolving = store world_resolving
   \<and> alerts (store (snd (deliver_alert world_resolving alert0 None))) = [alert0]
   \<and> alerts (session (snd (deliver_alert world_resolving alert0 None))) = [alert0]
   \<and> length (audit_logs (store (snd (deliver_alert world_resolving alert0 None)))) = 1"
proof -
  have h: "session world_resolving = store world_resolving"
    by (simp add: world_resolving_def)
  show ?thesis
    using h deliver_alert_frame [OF h, of alert0 None]
    by (auto simp add: world_resolving_def world_monitored_def world0_def empty_db_def
        accepted_def Let_def split: prod.splits)
qed

section \<open>Resolution: properties\<close>

lemma resolve_alert_resolved:
  "a_status a = RESOLVED \<Longrightarrow> resolve_alert w a actor = (Inr a, w)"
  by (simp add: resolve_alert_def)

text \<open>
  What \<open>resolve_alert\<close> does on an alert that is not yet resolved when the database accepts
  the commit of the status: the details of its audit entry hold \<open>resolved_at\<close>, a
  \<open>datetime\<close>, which \<open>json.dumps\<close> refuses; the call raises, the alert is stored resolved and
  the audit log is as it was.
\<close>

lemma resolve_alert_raises:
  assumes "a_status a \<noteq> RESOLVED" and "accepted (Suc n) (commit_faults w)"
  shows "resolve_alert w a actor =
     (let a1 = a\<lparr>a_status := RESOLVED, a_resolved_at := Some (clock w (clock_reads w))\<rparr>;
          d = (session w)\<lparr>alerts :=
                 map (\<lambda>row. if a_id row = a_id a then a1 else row) (alerts (session w))\<rparr>
      in (Inl SQLAlchemyError,
          w\<lparr>store := d, session := d, commit_faults := tl (commit_faults w),
            clock_reads := Suc (Suc (clock_reads w)), uuid_draws := Suc (uuid_draws w)\<rparr>))"
proof (cases "commit_faults w")
  case Nil
  with assms(1) show ?thesis
    by (simp add: resolve_alert_def log_alert_event_def db_commit_def Let_def utcnow_def
        uuid4_def db_set_alert_def or_empty_def)
next
  case (Cons rejected faults)
  with assms show ?thesis
    by (simp add: accepted_def resolve_alert_def log_alert_event_def db_commit_def Let_def
        utcnow_def uuid4_def db_set_alert_def or_empty_def)
qed

text \<open>
  C2 fails in the code on the branch that resolves. The part on an alert that is already
  resolved holds: \<open>resolve_alert\<close> returns it and the state unchanged. But on the active
  alert 4 of a healthy database \<open>resolve_alert\<close> raises: the row is stored with status
  \<open>resolved\<close> and \<open>resolved_at\<close> set, and no \<open>alert_resolved\<close> entry is written, because
  the details of the entry hold the \<open>datetime\<close> itself. Resolving the stored alert again
  returns it unchanged in an unchanged state: the two calls leave no \<open>alert_resolved\<close> entry
  where the claim says exactly one.
\<close>

theorem resolve_alert_writes_no_audit_entry:
  "commit_faults world_resolving = []
   \<and> alerts (store world_resolving) = [alert0] \<and> a_status alert0 = ACTIVE
   \<and> audit_logs (store world_resolving) = []
   \<and> fst (resolve_alert world_resolving alert0 (Some ''alice'')) = Inl SQLAlchemyError
   \<and> alerts (store (snd (resolve_alert world_resolving alert0 (Some ''alice''))))
        = [alert0\<lparr>a_status := RESOLVED, a_resolved_at := Some 1000\<rparr>]
   \<and> audit_logs (store (snd (resolve_alert world_resolving alert0 (Some ''alice'')))) = []
   \<and> resolve_alert (snd (resolve_alert world_resolving alert0 (Some ''alice'')))
        (alert0\<lparr>a_status := RESOLVED, a_resolved_at := Some 1000\<rparr>) (Some ''alice'')
      = (Inr (alert0\<lparr>a_status := RESOLVED, a_resolved_at := Some 1000\<rparr>),
         snd (resolve_alert world_resolving alert0 (Some ''alice'')))"
proof -
  have faults: "commit_faults world_resolving = []"
    by (simp add: world_resolving_def world0_def)
  have active: "a_status alert0 \<noteq> RESOLVED"
    by (simp add: alert0_def)
  have healthy: "accepted (Suc 0) (commit_faults world_resolving)"
    by (simp add: faults accepted_def)
  have tables: "alerts (store world_resolving) = [alert0]"
    "alerts (session world_resolving) = [alert0]"
    "audit_logs (store world_resolving) = []"
    "audit_logs (session world_resolving) = []"
    by (simp_all add: world_resolving_def world_monitored_def empty_db_def Let_def)
  have reading: "clock world_resolving (clock_reads world_resolving) = 1000"
    by (simp add: world_resolving_def world0_def)
  show ?thesis
    by (simp add: resolve_alert_raises [OF active healthy] Let_def faults tables reading)
       (simp add: resolve_alert_def alert0_def)
qed

text \<open>
  C10. \<open>resolve_alert\<close> commits the status change before it writes the audit entry: when
  the database accepts the first commit and the second (the one of \<open>log_alert_event\<close>)
  fails, the call fails with the database error, the alert's stored row is resolved with
  \<open>resolved_at\<close> set, and the stored audit log has no new entry.
\<close>

theorem resolve_alert_commits_before_audit:
  assumes "a_status a \<noteq> RESOLVED" and "commit_faults w = False # True # faults"
  shows "let now = clock w (clock_reads w);
             a1 = a\<lparr>a_status := RESOLVED, a_resolved_at := Some now\<rparr>;
             (resolved, w') = resolve_alert w a actor
         in resolved = Inl SQLAlchemyError
          \<and> alerts (store w')
                = map (\<lambda>row. if a_id row = a_id a then a1 else row) (alerts (session w))
          \<and> audit_logs (store w') = audit_logs (session w)
          \<and> session w' = store w'"
  using assms
  by (simp add: resolve_alert_def log_alert_event_def db_commit_def Let_def utcnow_def
      uuid4_def db_set_alert_def db_add_audit_log_def or_empty_def)

theorem resolve_alert_commits_before_audit_witness:
  "a_status alert0 \<noteq> RESOLVED
   \<and> commit_faults (world_resolving\<lparr>commit_faults := [False, True]\<rparr>) = False # True # []
   \<and> fst (resolve_alert (world_resolving\<lparr>commit_faults := [False, True]\<rparr>) alert0 None)
        = Inl SQLAlchemyError
   \<and> alerts (store (snd (resolve_alert (world_resolving\<lparr>commit_faults := [False, True]\<rparr>)
                               alert0 None)))
        = [alert0\<lparr>a_status := RESOLVED, a_resolved_at := Some 1000\<rparr>]
   \<and> audit_logs (store (snd (resolve_alert (world_resolving\<lparr>commit_faults := [False, True]\<rparr>)
                                   alert0 None))) = []"
proof -
  have active: "a_status alert0 \<noteq> RESOLVED"
    by (simp add: alert0_def)
  have h: "commit_faults (world_resolving\<lparr>commit_faults := [False, True]\<rparr>) = False # True # []"
    by simp
  show ?thesis
    using active h resolve_alert_commits_before_audit [OF active h, of None]
    by (simp add: Let_def world_resolving_def world_monitored_def world0_def empty_db_def
        alert0_def split: prod.splits)
qed

section \<open>Security events: properties\<close>

text \<open>
  C4. For an event type outside the five recognised ones \<open>detect_security_event\<close>
  raises the HTTP 400 error for an unsupported event type and returns the state it was
  given: no alert is created and no audit entry is written.
\<close>

theorem detect_security_event_unrecognized:
  assumes "event_type \<notin> {''unauthorized_access'', ''configuration_change'', ''policy_violation'',
                           ''privilege_escalation'', ''resource_exposure''}"
  shows "detect_security_event w resource_id event_type actor details
           = (Inl (HTTPException 400 (''Unsupported security event type: '' @ event_type)), w)"
  using assms by (simp add: detect_security_event_def SECURITY_EVENT_TYPES_def)

theorem detect_security_event_unrecognized_witness:
  "''rm_-rf_root'' \<notin> {''unauthorized_access'', ''configuration_change'', ''policy_violation'',
                           ''privilege_escalation'', ''resource_exposure''}
   \<and> detect_security_event world0 2 ''rm_-rf_root'' None None
       = (Inl (HTTPException 400 ''Unsupported security event type: rm_-rf_root''), world0)"
proof -
  have h: "''rm_-rf_root'' \<notin> {''unauthorized_access'', ''configuration_change'', ''policy_violation'',
                           ''privilege_escalation'', ''resource_exposure''}"
    by simp
  show ?thesis
    using h detect_security_event_unrecognized [OF h, of world0 2 None None]
    by simp
qed

lemma detect_security_event_accepted:
  assumes "event_type \<in> set SECURITY_EVENT_TYPES"
    and "get_resource w resource_id = Inr res"
    and "accepted (Suc (Suc (Suc n))) (commit_faults w)"
  shows "detect_security_event w resource_id event_type actor details =
     (let a = \<lparr>a_id = uuid_source w (uuid_draws w),
                a_resource_id = Some (r_id res),
                a_type = SECURITY,
                a_status = ACTIVE,
                a_title = ''Security Event: '' @ title (replace_char CHR ''_'' CHR '' '' event_type),
                a_description = Some (''Detected security event '' @ quoted event_type
                                      @ '' on resource '' @ quoted (r_name res)),
                a_triggered_at = clock w (clock_reads w),
                a_resolved_at = None,
                a_severity = event_severity event_type,
                a_details = Some (or_empty details),
                a_incident_id = None\<rparr>;
          w4 = w\<lparr>clock_reads := Suc (clock_reads w), uuid_draws := Suc (uuid_draws w),
                 session := (session w)\<lparr>alerts := alerts (session w) @ [a]\<rparr>,
                 store := (session w)\<lparr>alerts := alerts (session w) @ [a]\<rparr>,
                 commit_faults := tl (commit_faults w)\<rparr>;
          generated = \<lparr>l_id = uuid_source w (Suc (uuid_draws w)),
                       l_incident_id = None,
                       l_alert_id = Some (a_id a),
                       l_event_type = ''alert_generated'',
                       l_event_time = clock w (Suc (clock_reads w)),
                       l_actor = Some ''system'',
                       l_details = Some [(''email_sent'', JBool (send_email_alert w4 (alert_subject a) (alert_body a))),
                                         (''slack_sent'', JBool (send_slack_alert w4 (slack_message a)))]\<rparr>;
          detected = \<lparr>l_id = uuid_source w (Suc (Suc (uuid_draws w))),
                      l_incident_id = None,
                      l_alert_id = Some (a_id a),
                      l_event_type = ''security_event_detected'',
                      l_event_time = clock w (Suc (Suc (clock_reads w))),
                      l_actor = Some (or_system actor),
                      l_details = Some (or_empty details)\<rparr>;
          d = (session w)\<lparr>alerts := alerts (session w) @ [a],
                           audit_logs := audit_logs (session w) @ [generated, detected]\<rparr>
      in (Inr a,
          w\<lparr>store := d, session := d, commit_faults := tl (tl (tl (commit_faults w))),
            clock_reads := Suc (Suc (Suc (clock_reads w))),
            uuid_draws := Suc (Suc (Suc (uuid_draws w)))\<rparr>))"
proof -
  have split3: "commit_faults w = [] \<or> commit_faults w = [False] \<or> commit_faults w = [False, False]
     \<or> (\<exists>faults. commit_faults w = False # False # False # faults)"
    using assms(3)
    by (cases "commit_faults w"; simp add: accepted_def)
       (rename_tac x xs, case_tac xs; simp; rename_tac y ys, case_tac ys; simp)
  then show ?thesis
    using assms(1,2)
    by (elim disjE exE)
       (simp_all add: detect_security_event_def deliver_alert_def log_alert_event_def
          db_commit_def Let_def utcnow_def uuid4_def db_add_alert_def db_add_audit_log_def
          or_empty_def json_dumps_py_of_json send_email_alert_def send_slack_alert_def)
qed

text \<open>
  C3. For each of the five recognised event types, a resource id that resolves to a
  stored resource and a database that accepts the three commits, \<open>detect_security_event\<close>
  returns a new alert of type \<open>security\<close> and status \<open>active\<close> with no \<open>resolved_at\<close>,
  of severity \<open>critical\<close> for \<open>unauthorized_access\<close>, \<open>privilege_escalation\<close> and
  \<open>resource_exposure\<close> and \<open>warning\<close> for the two others; the alert is stored, and exactly
  two audit entries are appended for it: first the \<open>alert_generated\<close> entry of the delivery,
  then a \<open>security_event_detected\<close> entry with the evidence details as given (the empty
  dict when none are given) and the actor as given (\<open>system\<close> when none, or an empty one,
  is given).
\<close>

theorem detect_security_event_recognized:
  assumes "event_type \<in> {''unauthorized_access'', ''configuration_change'', ''policy_violation'',
                           ''privilege_escalation'', ''resource_exposure''}"
    and "get_resource w resource_id = Inr res"
    and "accepted 3 (commit_faults w)"
  shows "\<exists>a generated detected w'.
           detect_security_event w resource_id event_type actor details = (Inr a, w')
         \<and> a_type a = SECURITY \<and> a_status a = ACTIVE \<and> a_resolved_at a = None
         \<and> a_severity a =
               (if event_type \<in> {''unauthorized_access'', ''privilege_escalation'', ''resource_exposure''}
                then ''critical'' else ''warning'')
         \<and> a_resource_id a = Some (r_id res)
         \<and> alerts (store w') = alerts (session w) @ [a]
         \<and> audit_logs (store w') = audit_logs (session w) @ [generated, detected]
         \<and> session w' = store w'
         \<and> l_event_type generated = ''alert_generated''
         \<and> l_alert_id generated = Some (a_id a)
         \<and> l_event_type detected = ''security_event_detected''
         \<and> l_alert_id detected = Some (a_id a)
         \<and> l_details detected = Some (case details of None \<Rightarrow> [] | Some d \<Rightarrow> d)
         \<and> l_actor detected =
               Some (case actor of None \<Rightarrow> ''system'' | Some s \<Rightarrow> if s = [] then ''system'' else s)"
proof -
  from assms(1) have known: "event_type \<in> set SECURITY_EVENT_TYPES"
    by (simp add: SECURITY_EVENT_TYPES_def)
  from assms(3) have "accepted (Suc (Suc (Suc 0))) (commit_faults w)"
    by (simp add: numeral_3_eq_3)
  from detect_security_event_accepted [OF known assms(2) this]
  show ?thesis
    by (simp add: Let_def event_severity_def or_empty_def or_system_def)
qed

theorem detect_security_event_recognized_witness:
  "''privilege_escalation'' \<in> {''unauthorized_access'', ''configuration_change'', ''policy_violation'',
                           ''privilege_escalation'', ''resource_exposure''}
   \<and> (\<exists>res. get_resource world_monitored 2 = Inr res)
   \<and> accepted 3 (commit_faults world_monitored)
   \<and> (\<exists>a w'. detect_security_event world_monitored 2 ''privilege_escalation'' None None = (Inr a, w')
          \<and> a_severity a = ''critical'' \<and> a_type a = SECURITY \<and> a_status a = ACTIVE
          \<and> map l_event_type (audit_logs (store w'))
                = [''alert_generated'', ''security_event_detected''])"
proof -
  have h1: "''privilege_escalation'' \<in> {''unauthorized_access'', ''configuration_change'',
              ''policy_violation'', ''privilege_escalation'', ''resource_exposure''}"
    by simp
  have h2: "get_resource world_monitored 2 = Inr (hd (resources (store world_monitored)))"
    by (simp add: get_resource_def world_monitored_def world0_def empty_db_def Let_def)
  have h3: "accepted 3 (commit_faults world_monitored)"
    by (simp add: world_monitored_def world0_def accepted_def Let_def)
  have logs: "audit_logs (session world_monitored) = []"
    by (simp add: world_monitored_def world0_def empty_db_def Let_def)
  from detect_security_event_recognized [OF h1 h2 h3, of None None]
  obtain a generated detected w' where
    "detect_security_event world_monitored 2 ''privilege_escalation'' None None = (Inr a, w')"
    "a_severity a = ''critical''" "a_type a = SECURITY" "a_status a = ACTIVE"
    "audit_logs (store w') = audit_logs (session world_monitored) @ [generated, detected]"
    "l_event_type generated = ''alert_generated''"
    "l_event_type detected = ''security_event_detected''"
    by auto
  with h1 h2 h3 logs show ?thesis
    by simp
qed

section \<open>The invariant of alerts: properties\<close>

lemma db_commit_inv: "world_inv w \<Longrightarrow> world_inv (snd (db_commit w))"
  by (auto simp: db_commit_def world_inv_def split: list.splits)

lemma log_alert_event_inv:
  "world_inv w \<Longrightarrow> world_inv (snd (log_alert_event w a event_type actor details inc))"
proof -
  assume inv: "world_inv w"
  show ?thesis
  proof (cases "json_dumps (or_empty details)")
    case None
    with inv show ?thesis
      by (simp add: log_alert_event_unserialisable world_inv_def)
  next
    case (Some stored)
    let ?w3 = "db_add_audit_log (snd (uuid4 (snd (utcnow w))))
                 \<lparr>l_id = fst (uuid4 (snd (utcnow w))),
                  l_incident_id = (case inc of Some i \<Rightarrow> Some (i_id i)
                                   | None \<Rightarrow> a_incident_id a),
                  l_alert_id = Some (a_id a),
                  l_event_type = event_type,
                  l_event_time = fst (utcnow w),
                  l_actor = actor,
                  l_details = Some stored\<rparr>"
    from inv have "world_inv ?w3"
      by (simp add: world_inv_def alerts_inv_def db_add_audit_log_def uuid4_def utcnow_def)
    from db_commit_inv [OF this] Some
    show ?thesis
      by (simp add: log_alert_event_def Let_def split_beta split: prod.splits sum.splits)
  qed
qed

lemma snd_relay:
  "snd (case p of (Inl e, w1) \<Rightarrow> (Inl e, w1) | (Inr x, w1) \<Rightarrow> (Inr (f x), w1)) = snd p"
  by (auto split: prod.splits sum.splits)

lemma deliver_alert_inv:
  "world_inv w \<Longrightarrow> world_inv (snd (deliver_alert w a inc))"
  by (simp add: deliver_alert_def Let_def snd_relay log_alert_event_inv)

lemma db_set_alert_inv:
  "world_inv w \<Longrightarrow> alert_inv a \<Longrightarrow> world_inv (db_set_alert w a)"
  by (auto simp: world_inv_def alerts_inv_def db_set_alert_def list_all_iff)

lemma db_add_alert_inv:
  "world_inv w \<Longrightarrow> alert_inv a \<Longrightarrow> world_inv (db_add_alert w a)"
  by (simp add: world_inv_def alerts_inv_def db_add_alert_def)

lemma utcnow_inv: "world_inv (snd (utcnow w)) = world_inv w"
  by (simp add: world_inv_def utcnow_def)

lemma uuid4_inv: "world_inv (snd (uuid4 w)) = world_inv w"
  by (simp add: world_inv_def uuid4_def)

lemma resolve_alert_inv:
  assumes "world_inv w" and "alert_inv a"
  shows "world_inv (snd (resolve_alert w a actor))
       \<and> (case fst (resolve_alert w a actor) of Inr a' \<Rightarrow> alert_inv a' | Inl e \<Rightarrow> True)"
proof (cases "a_status a = RESOLVED")
  case True
  with assms show ?thesis
    by (simp add: resolve_alert_def)
next
  case False
  let ?a1 = "a\<lparr>a_status := RESOLVED, a_resolved_at := Some (fst (utcnow w))\<rparr>"
  let ?w2 = "db_set_alert (snd (utcnow w)) ?a1"
  have a1: "alert_inv ?a1"
    by (simp add: alert_inv_def)
  with assms(1) have "world_inv ?w2"
    by (simp add: db_set_alert_inv utcnow_inv)
  from db_commit_inv [OF this] have w3: "world_inv (snd (db_commit ?w2))" .
  show ?thesis
  proof (cases "db_commit ?w2")
    case (Pair r w3)
    with w3 have inv3: "world_inv w3" by simp
    show ?thesis
    proof (cases r)
      case (Inl e)
      with Pair False inv3 show ?thesis
        by (simp add: resolve_alert_def Let_def split_beta)
    next
      case (Inr u)
      from log_alert_event_inv [OF inv3]
      have "world_inv (snd (log_alert_event w3 ?a1 ''alert_resolved'' actor
               (Some [(''resolved_at'', Datetime (fst (utcnow w)))]) None))" .
      with Pair Inr False a1 show ?thesis
        by (auto simp add: resolve_alert_def Let_def split_beta split: prod.splits sum.splits)
    qed
  qed
qed

lemma detect_security_event_inv:
  assumes "world_inv w"
  shows "world_inv (snd (detect_security_event w resource_id event_type actor details))
       \<and> (case fst (detect_security_event w resource_id event_type actor details) of
             Inr a' \<Rightarrow> a_status a' = ACTIVE \<and> a_resolved_at a' = None
           | Inl e \<Rightarrow> True)"
proof (cases "event_type \<in> set SECURITY_EVENT_TYPES")
  case False
  with assms show ?thesis
    by (simp add: detect_security_event_def)
next
  case True
  show ?thesis
  proof (cases "get_resource w resource_id")
    case (Inl e)
    with True assms show ?thesis
      by (simp add: detect_security_event_def)
  next
    case (Inr res)
    let ?a = "\<lparr>a_id = uuid_source w (uuid_draws w),
               a_resource_id = Some (r_id res),
               a_type = SECURITY,
               a_status = ACTIVE,
               a_title = ''Security Event: '' @ title (replace_char CHR ''_'' CHR '' '' event_type),
               a_description = Some (''Detected security event '' @ quoted event_type
                                     @ '' on resource '' @ quoted (r_name res)),
               a_triggered_at = clock w (clock_reads w),
               a_resolved_at = None,
               a_severity = event_severity event_type,
               a_details = Some (or_empty details),
               a_incident_id = None\<rparr>"
    let ?w3 = "db_add_alert (w\<lparr>clock_reads := Suc (clock_reads w),
                                uuid_draws := Suc (uuid_draws w)\<rparr>) ?a"
    have "alert_inv ?a"
      by (simp add: alert_inv_def)
    moreover from assms
    have "world_inv (w\<lparr>clock_reads := Suc (clock_reads w), uuid_draws := Suc (uuid_draws w)\<rparr>)"
      by (simp add: world_inv_def)
    ultimately have "world_inv ?w3"
      by (simp add: db_add_alert_inv)
    from db_commit_inv [OF this] have inv4: "world_inv (snd (db_commit ?w3))" .
    have unfold: "detect_security_event w resource_id event_type actor details =
        (case db_commit ?w3 of
           (Inl e, w4) \<Rightarrow> (Inl e, w4)
         | (Inr u, w4) \<Rightarrow>
             (case deliver_alert w4 ?a None of
                (Inl e, w5) \<Rightarrow> (Inl e, w5)
              | (Inr b, w5) \<Rightarrow>
                  (case log_alert_event w5 ?a ''security_event_detected''
                          (Some (or_system actor)) (Some (py_of_json (or_empty details)))
                          None of
                     (Inl e, w6) \<Rightarrow> (Inl e, w6)
                   | (Inr l, w6) \<Rightarrow> (Inr ?a, w6))))"
      using True Inr
      by (simp add: detect_security_event_def Let_def utcnow_def uuid4_def
          cong: prod.case_cong sum.case_cong)
    show ?thesis
    proof (cases "db_commit ?w3")
      case c: (Pair r4 w4)
      with inv4 have i4: "world_inv w4" by simp
      show ?thesis
      proof (cases r4)
        case Inl
        with c i4 show ?thesis unfolding unfold by simp
      next
        case r4: (Inr u)
        from deliver_alert_inv [OF i4] have inv5: "world_inv (snd (deliver_alert w4 ?a None))" .
        show ?thesis
        proof (cases "deliver_alert w4 ?a None")
          case d: (Pair r5 w5)
          with inv5 have i5: "world_inv w5" by simp
          show ?thesis
          proof (cases r5)
            case Inl
            with c r4 d i5 show ?thesis unfolding unfold by simp
          next
            case r5: (Inr b)
            from log_alert_event_inv [OF i5]
            have "world_inv (snd (log_alert_event w5 ?a ''security_event_detected''
                          (Some (or_system actor)) (Some (py_of_json (or_empty details)))
                          None))" .
            with c r4 d r5 show ?thesis unfolding unfold
              by (auto split: prod.splits sum.splits)
          qed
        qed
      qed
    qed
  qed
qed

text \<open>
  C7. \<open>resolved_at\<close> is set if and only if the status is \<open>resolved\<close>: when this holds of
  every alert in the store and in the session, and of the alert handed in, it holds of
  every alert in the store and in the session after \<open>resolve_alert\<close>, after
  \<open>deliver_alert\<close> and after \<open>detect_security_event\<close>, whether they succeed or raise, and
  of the alert that \<open>resolve_alert\<close> returns. The alert that \<open>detect_security_event\<close>
  creates has status \<open>active\<close> and no \<open>resolved_at\<close>.
\<close>

theorem resolved_at_iff_resolved:
  assumes "alerts_inv (store w)" and "alerts_inv (session w)" and "alert_inv a"
  shows "(let (resolved, w') = resolve_alert w a actor
          in alerts_inv (store w') \<and> alerts_inv (session w')
           \<and> (case resolved of Inr a' \<Rightarrow> alert_inv a' | Inl e \<Rightarrow> True))
       \<and> (let (delivered, w') = deliver_alert w a inc
          in alerts_inv (store w') \<and> alerts_inv (session w'))
       \<and> (let (detected, w') = detect_security_event w resource_id event_type actor details
          in alerts_inv (store w') \<and> alerts_inv (session w')
           \<and> (case detected of
                 Inr a' \<Rightarrow> a_status a' = ACTIVE \<and> a_resolved_at a' = None \<and> alert_inv a'
               | Inl e \<Rightarrow> True))"
proof -
  from assms have inv: "world_inv w"
    by (simp add: world_inv_def)
  from resolve_alert_inv [OF inv assms(3), of actor]
       deliver_alert_inv [OF inv, of a inc]
       detect_security_event_inv [OF inv, of resource_id event_type actor details]
  show ?thesis
    by (auto simp add: world_inv_def alert_inv_def split: prod.splits sum.splits)
qed

theorem resolved_at_iff_resolved_witness:
  "alerts_inv (store world_resolving) \<and> alerts_inv (session world_resolving) \<and> alert_inv alert0
   \<and> alerts (store (snd (resolve_alert world_resolving alert0 None)))
        = [alert0\<lparr>a_status := RESOLVED, a_resolved_at := Some 1000\<rparr>]
   \<and> alerts_inv (store (snd (resolve_alert world_resolving alert0 None)))
   \<and> alerts_inv (store (snd (deliver_alert world_resolving alert0 None)))
   \<and> alerts_inv (store (snd (detect_security_event world_resolving 2 ''policy_violation'' None None)))"
proof -
  have h1: "alerts_inv (store world_resolving)"
    by (simp add: world_resolving_def alert0_def alerts_inv_def alert_inv_def)
  have h2: "alerts_inv (session world_resolving)"
    by (simp add: world_resolving_def alert0_def alerts_inv_def alert_inv_def)
  have h3: "alert_inv alert0"
    by (simp add: alert0_def alert_inv_def)
  have stored: "alerts (store (snd (resolve_alert world_resolving alert0 None)))
        = [alert0\<lparr>a_status := RESOLVED, a_resolved_at := Some 1000\<rparr>]"
    by (simp add: resolve_alert_def log_alert_event_def db_commit_def Let_def utcnow_def
        uuid4_def db_set_alert_def or_empty_def world_resolving_def world0_def alert0_def)
  show ?thesis
    using h1 h2 h3 stored
      resolved_at_iff_resolved [OF h1 h2 h3, of None None 2 "''policy_violation''" None]
    by (simp add: split_beta)
qed

section \<open>Audit log listing: properties\<close>

lemma get_audit_logs_eq:
  "get_audit_logs w incident_id alert_id skip limit =
     take limit (drop skip (sort_key (\<lambda>l. - int (l_event_time l))
        (sort_key (scan_rank w skip limit)
           (filter (selected incident_id alert_id) (audit_logs (store w))))))"
  by (cases incident_id; cases alert_id)
     (simp_all add: get_audit_logs_def selected_def [abs_def] Let_def)

lemma newest_first_sort: "newest_first (sort_key (\<lambda>l. - int (l_event_time l)) ls)"
proof -
  have "sorted (map (\<lambda>l. - int (l_event_time l)) (sort_key (\<lambda>l. - int (l_event_time l)) ls))"
    by (rule sorted_sort_key)
  then show ?thesis
    by (simp add: newest_first_def sorted_map)
qed

lemma newest_first_page: "newest_first ls \<Longrightarrow> newest_first (take limit (drop skip ls))"
  by (simp add: newest_first_def sorted_wrt_take sorted_wrt_drop)

lemma world_many_selected:
  "filter (selected (Some 7) None) (audit_logs (store world_many)) = map entry_at [0..<101]"
  by (simp add: world_many_def empty_db_def filter_map comp_def selected_def entry_at_def)

text \<open>
  C8, as stated, fails: the listing is a page. With 101 stored entries of incident 7 the
  listing for incident 7 with the source's defaults (\<open>skip=0\<close>, \<open>limit=100\<close>) has 100
  entries, so it is not the collection of the entries of that incident; nor does the
  listing without a filter return all 101 entries.
\<close>

theorem get_audit_logs_counterexample:
  "length (filter (selected (Some 7) None) (audit_logs (store world_many))) = 101
   \<and> length (get_audit_logs world_many (Some 7) None 0 100) = 100
   \<and> mset (get_audit_logs world_many (Some 7) None 0 100)
       \<noteq> mset (filter (selected (Some 7) None) (audit_logs (store world_many)))
   \<and> length (audit_logs (store world_many)) = 101
   \<and> length (get_audit_logs world_many None None 0 100) = 100"
proof -
  have matching: "length (filter (selected (Some 7) None) (audit_logs (store world_many))) = 101"
    by (simp add: world_many_selected)
  have page: "length (get_audit_logs world_many (Some 7) None 0 100) = 100"
    by (simp add: get_audit_logs_eq world_many_selected)
  have differ: "mset (get_audit_logs world_many (Some 7) None 0 100)
       \<noteq> mset (filter (selected (Some 7) None) (audit_logs (store world_many)))"
  proof
    assume "mset (get_audit_logs world_many (Some 7) None 0 100)
       = mset (filter (selected (Some 7) None) (audit_logs (store world_many)))"
    then have "length (get_audit_logs world_many (Some 7) None 0 100)
       = length (filter (selected (Some 7) None) (audit_logs (store world_many)))"
      by (rule mset_eq_length)
    with matching page show False
      by simp
  qed
  have every: "length (audit_logs (store world_many)) = 101"
    by (simp add: world_many_def empty_db_def)
  have unfiltered: "length (get_audit_logs world_many None None 0 100) = 100"
    by (simp add: get_audit_logs_def Let_def world_many_def empty_db_def)
  from matching page differ every unfiltered show ?thesis
    by blast
qed

text \<open>
  C8, amended. The listing holds only stored entries that the given filters keep (those
  whose \<open>incident_id\<close> is the given id), newest first by \<open>event_time\<close>; it is the page of
  at most \<open>limit\<close> entries after the first \<open>skip\<close> of some newest-first ordering of exactly
  the kept entries (which ordering, among entries of equal \<open>event_time\<close>, is the
  database's choice for that query); and with \<open>skip = 0\<close> it holds exactly the kept
  entries, each once per stored row, when they number at most \<open>limit\<close>. The same holds
  with no filter, where every entry is kept.
\<close>

theorem get_audit_logs_page:
  "set (get_audit_logs w incident_id alert_id skip limit)
     \<subseteq> {l \<in> set (audit_logs (store w)). selected incident_id alert_id l}
   \<and> newest_first (get_audit_logs w incident_id alert_id skip limit)
   \<and> (\<exists>ordering.
         mset ordering = mset (filter (selected incident_id alert_id) (audit_logs (store w)))
         \<and> newest_first ordering
         \<and> get_audit_logs w incident_id alert_id skip limit = take limit (drop skip ordering))
   \<and> (length (filter (selected incident_id alert_id) (audit_logs (store w))) \<le> limit \<longrightarrow>
        mset (get_audit_logs w incident_id alert_id 0 limit)
          = mset (filter (selected incident_id alert_id) (audit_logs (store w))))"
proof (intro conjI impI)
  let ?matching = "filter (selected incident_id alert_id) (audit_logs (store w))"
  let ?ordered = "\<lambda>skip limit. sort_key (\<lambda>l. - int (l_event_time l))
                     (sort_key (scan_rank w skip limit) ?matching)"
  have "set (take limit (drop skip (?ordered skip limit))) \<subseteq> set (?ordered skip limit)"
    by (meson set_take_subset set_drop_subset subset_trans)
  then show "set (get_audit_logs w incident_id alert_id skip limit)
     \<subseteq> {l \<in> set (audit_logs (store w)). selected incident_id alert_id l}"
    by (auto simp add: get_audit_logs_eq)
  show "newest_first (get_audit_logs w incident_id alert_id skip limit)"
    by (simp add: get_audit_logs_eq newest_first_page newest_first_sort)
  have "mset (?ordered skip limit) = mset ?matching"
    by simp
  moreover have "newest_first (?ordered skip limit)"
    by (rule newest_first_sort)
  moreover have "get_audit_logs w incident_id alert_id skip limit
                   = take limit (drop skip (?ordered skip limit))"
    by (rule get_audit_logs_eq)
  ultimately show "\<exists>ordering.
         mset ordering = mset ?matching
         \<and> newest_first ordering
         \<and> get_audit_logs w incident_id alert_id skip limit = take limit (drop skip ordering)"
    by blast
  assume "length ?matching \<le> limit"
  then have "take limit (?ordered 0 limit) = ?ordered 0 limit"
    by simp
  then show "mset (get_audit_logs w incident_id alert_id 0 limit) = mset ?matching"
    by (simp add: get_audit_logs_eq)
qed

theorem get_audit_logs_page_witness:
  "length (filter (selected (Some 7) None) (audit_logs (store world_few))) \<le> 100
   \<and> get_audit_logs world_few (Some 7) None 0 100 = [entry_at 12, entry_at 5]
   \<and> mset (get_audit_logs world_few (Some 7) None 0 100)
       = mset (filter (selected (Some 7) None) (audit_logs (store world_few)))
   \<and> newest_first (get_audit_logs world_few (Some 7) None 0 100)"
proof -
  have h: "length (filter (selected (Some 7) None) (audit_logs (store world_few))) \<le> 100"
    by (simp add: world_few_def empty_db_def)
  have listing: "get_audit_logs world_few (Some 7) None 0 100 = [entry_at 12, entry_at 5]"
    by code_simp
  from h get_audit_logs_page [of world_few "Some 7" None 0 100]
  have "mset (get_audit_logs world_few (Some 7) None 0 100)
          = mset (filter (selected (Some 7) None) (audit_logs (store world_few)))"
    and "newest_first (get_audit_logs world_few (Some 7) None 0 100)"
    by blast+
  with h listing show ?thesis
    by blast
qed

section \<open>Product deletion and the audit log\<close>

text \<open>
  C6 fails in the code, which calls the audit log immutable: \<open>delete_product\<close> removes and
  rewrites audit entries. In a database where product 1 owns resource 2, which has an open
  incident 3 and an alert 4, deleting product 1 succeeds; the audit entry of incident 3 is
  deleted with the incident and the entry of alert 4 is kept with its \<open>alert_id\<close> set to
  \<open>NULL\<close>. The same happens to the two entries that \<open>detect_security_event\<close> has just
  written for a resource of the product: both lose their \<open>alert_id\<close>.
\<close>

theorem delete_product_changes_audit_log:
  "audit_logs (store world_incident) =
     [(entry_at 5)\<lparr>l_incident_id := Some 3\<rparr>,
      (entry_at 6)\<lparr>l_incident_id := None, l_alert_id := Some 4\<rparr>]
   \<and> fst (delete_product world_incident 1) = Inr ()
   \<and> audit_logs (store (snd (delete_product world_incident 1))) =
       [(entry_at 6)\<lparr>l_incident_id := None, l_alert_id := None\<rparr>]
   \<and> map l_alert_id (audit_logs (store world_detected)) = [Some 100, Some 100]
   \<and> fst (delete_product world_detected 1) = Inr ()
   \<and> map l_alert_id (audit_logs (store (snd (delete_product world_detected 1)))) = [None, None]"
proof (intro conjI)
  show "audit_logs (store world_incident) =
     [(entry_at 5)\<lparr>l_incident_id := Some 3\<rparr>,
      (entry_at 6)\<lparr>l_incident_id := None, l_alert_id := Some 4\<rparr>]"
    by code_simp
  show "fst (delete_product world_incident 1) = Inr ()"
    by code_simp
  show "audit_logs (store (snd (delete_product world_incident 1))) =
       [(entry_at 6)\<lparr>l_incident_id := None, l_alert_id := None\<rparr>]"
    by code_simp
  show "map l_alert_id (audit_logs (store world_detected)) = [Some 100, Some 100]"
    by code_simp
  show "fst (delete_product world_detected 1) = Inr ()"
    by code_simp
  show "map l_alert_id (audit_logs (store (snd (delete_product world_detected 1)))) = [None, None]"
    by code_simp
qed

end
